theory Spec2Isabelle
  imports Main "HOL-Library.Word"
begin

unbundle bit_operations_syntax

chapter \<open>The embedding\<close>

section \<open>Cipher: \<open>EncryptionManager\<close> (RemoteDesktopServer.cpp)\<close>

text \<open>
  Bytes are \<open>uint8_t\<close>. The key is the member array \<open>uint8_t _key[32]\<close>; it is passed
  explicitly here. \<open>Encrypt\<close> allocates a vector of \<open>data.size()\<close> bytes and fills position
  \<open>i\<close> with \<open>data[i] ^ _key[i % 32]\<close>; \<open>Decrypt\<close> calls \<open>Encrypt\<close>.
\<close>

type_synonym byte = "8 word"

definition Encrypt :: "byte list \<Rightarrow> byte list \<Rightarrow> byte list" where
  "Encrypt key data = map (\<lambda>i. (data ! i) XOR (key ! (i mod 32))) [0..<length data]"

definition Decrypt :: "byte list \<Rightarrow> byte list \<Rightarrow> byte list" where
  "Decrypt key data = Encrypt key data"

section \<open>Wire codec: \<open>SerializableMessage\<close> (RemoteDesktopServer.h, RemoteDesktopServer.cpp)\<close>

text \<open>
  \<open>enum class MessageType { COMMAND, RESPONSE, STATUS, ERROR }\<close> has underlying type
  \<open>int\<close>. \<open>Deserialize\<close> casts an arbitrary byte to it, so the field holds the underlying
  value; \<open>is_MessageType\<close> says that the value is one of the four enumerators.
  The three \<open>std::string\<close> fields are sequences of 8-bit characters.
\<close>

datatype MessageType = COMMAND | RESPONSE | STATUS | ERROR

fun MessageType_value :: "MessageType \<Rightarrow> int" where
  "MessageType_value COMMAND = 0"
| "MessageType_value RESPONSE = 1"
| "MessageType_value STATUS = 2"
| "MessageType_value ERROR = 3"

definition is_MessageType :: "int \<Rightarrow> bool" where
  "is_MessageType t \<longleftrightarrow> t \<in> MessageType_value ` {COMMAND, RESPONSE, STATUS, ERROR}"

record SerializableMessage =
  mtype :: int
  source :: "byte list"
  target :: "byte list"
  content :: "byte list"
  timestamp :: "64 word"

text \<open>
  \<open>Serialize\<close>: type byte, the two 16-bit lengths and the 32-bit length in little-endian
  order (each a \<open>static_cast\<close> of \<open>size()\<close>, which truncates), the eight timestamp bytes
  written by the loop \<open>for i in 0..7: (timestamp >> (i * 8)) & 0xFF\<close>, then the three strings.
\<close>

definition timestamp_bytes :: "64 word \<Rightarrow> byte list" where
  "timestamp_bytes ts = map (\<lambda>i. ucast (drop_bit (i * 8) ts AND 0xFF)) [0..<8]"

definition Serialize :: "SerializableMessage \<Rightarrow> byte list" where
  "Serialize m =
    (let sourceLen = (word_of_nat (length (source m)) :: 16 word);
         targetLen = (word_of_nat (length (target m)) :: 16 word);
         contentLen = (word_of_nat (length (content m)) :: 32 word)
     in [word_of_int (mtype m)]
        @ [ucast (sourceLen AND 0xFF), ucast (drop_bit 8 sourceLen AND 0xFF)]
        @ [ucast (targetLen AND 0xFF), ucast (drop_bit 8 targetLen AND 0xFF)]
        @ [ucast (contentLen AND 0xFF), ucast (drop_bit 8 contentLen AND 0xFF),
           ucast (drop_bit 16 contentLen AND 0xFF), ucast (drop_bit 24 contentLen AND 0xFF)]
        @ timestamp_bytes (timestamp m)
        @ source m @ target m @ content m)"

text \<open>
  \<open>Deserialize\<close> has two early returns, both handing back an empty message under the
  comment \<open>Invalid message\<close>: one when \<open>data.size() < 17\<close>, one when
  \<open>data.size() < expectedSize\<close>. They are the error values \<open>Truncated\<close> and \<open>Incomplete\<close>.

  \<open>size_t expectedSize = 17 + sourceLen + targetLen + contentLen\<close> adds an \<open>int\<close> and a
  \<open>uint32_t\<close>: the sum is computed in \<open>unsigned int\<close>, 32 bits wide, and wraps around before
  it is widened to \<open>size_t\<close>.

  \<open>string::assign(ptr, n)\<close> copies \<open>n\<close> bytes starting at \<open>ptr\<close>. \<open>assign_bytes\<close> gives
  the bytes when they all lie inside \<open>data\<close>; a copy that leaves the vector has no defined
  result in C++ and is the outcome \<open>ReadPastBuffer\<close>.
\<close>

datatype FrameError = Truncated | Incomplete

datatype DeserializeResult =
  Invalid FrameError | Decoded SerializableMessage | ReadPastBuffer

definition header_sourceLen :: "byte list \<Rightarrow> 16 word" where
  "header_sourceLen data = ucast (data ! 1) OR push_bit 8 (ucast (data ! 2))"

definition header_targetLen :: "byte list \<Rightarrow> 16 word" where
  "header_targetLen data = ucast (data ! 3) OR push_bit 8 (ucast (data ! 4))"

definition header_contentLen :: "byte list \<Rightarrow> 32 word" where
  "header_contentLen data =
     ucast (data ! 5) OR push_bit 8 (ucast (data ! 6))
       OR push_bit 16 (ucast (data ! 7)) OR push_bit 24 (ucast (data ! 8))"

definition header_timestamp :: "byte list \<Rightarrow> 64 word" where
  "header_timestamp data =
     fold (\<lambda>i ts. ts OR push_bit (i * 8) (ucast (data ! (9 + i)))) [0..<8] 0"

definition assign_bytes :: "byte list \<Rightarrow> nat \<Rightarrow> nat \<Rightarrow> byte list option" where
  "assign_bytes data off n =
     (if off + n \<le> length data then Some (take n (drop off data)) else None)"

definition Deserialize :: "byte list \<Rightarrow> DeserializeResult" where
  "Deserialize data =
    (if length data < 17 then Invalid Truncated
     else
       let sourceLen = header_sourceLen data;
           targetLen = header_targetLen data;
           contentLen = header_contentLen data;
           ts = header_timestamp data;
           expectedSize = unat (17 + ucast sourceLen + ucast targetLen + contentLen :: 32 word)
       in if length data < expectedSize then Invalid Incomplete
          else
            (case assign_bytes data 17 (unat sourceLen) of
               None \<Rightarrow> ReadPastBuffer
             | Some src \<Rightarrow>
            (case assign_bytes data (17 + unat sourceLen) (unat targetLen) of
               None \<Rightarrow> ReadPastBuffer
             | Some tgt \<Rightarrow>
            (case assign_bytes data (17 + unat sourceLen + unat targetLen) (unat contentLen) of
               None \<Rightarrow> ReadPastBuffer
             | Some cnt \<Rightarrow>
                 Decoded \<lparr>mtype = uint (data ! 0), source = src, target = tgt,
                          content = cnt, timestamp = ts\<rparr>))))"

text \<open>
  The total length a frame declares: 17 header bytes plus the three length fields, as a
  natural number (no wrap-around).
\<close>

definition declared_length :: "byte list \<Rightarrow> nat" where
  "declared_length data =
     17 + unat (header_sourceLen data) + unat (header_targetLen data)
        + unat (header_contentLen data)"

text \<open>
  A 17-byte frame of type 0 with empty source and target, content length \<open>0xFFFFFFFF\<close> and
  timestamp 0.
\<close>

definition overflow_frame :: "byte list" where
  "overflow_frame = [0, 0, 0, 0, 0, 0xFF, 0xFF, 0xFF, 0xFF, 0, 0, 0, 0, 0, 0, 0, 0]"

text \<open>A \<open>STATUS\<close> frame with a two-byte source, a one-byte target and three content bytes.\<close>

definition example_message :: SerializableMessage where
  "example_message =
     \<lparr>mtype = 2, source = [1, 2], target = [3], content = [4, 5, 6],
      timestamp = 0x0102030405060708\<rparr>"

section \<open>Session lifecycle: \<open>Session::Start\<close>, \<open>Session::Stop\<close>\<close>

text \<open>
  A call either returns, or ends the process through \<open>std::terminate\<close>, or waits for ever
  in a \<open>join\<close> on a thread that does not exit.
\<close>

datatype 'a outcome = Returns 'a | Terminates | Blocks

text \<open>
  A \<open>std::thread\<close> member is either joinable (it owns a running loop) or not. Assigning a
  new thread to a joinable one calls \<open>std::terminate\<close>. \<open>loopsSpawned\<close> counts the threads
  the session has created; \<open>socketClosed\<close> records the \<open>close(_clientSocket)\<close> at the end
  of \<open>Stop\<close>.

  \<open>Stop\<close> clears the flag and joins both loops. The screen loop tests the flag every 50 ms;
  the input loop sits in \<open>recv\<close> and tests it only when \<open>recv\<close> returns. Whether the
  loops exit is the parameter \<open>loops_exit\<close>.
\<close>

datatype thread = NotJoinable | Joinable

record Session =
  clientSocket :: int
  sess_running :: bool
  screenThread :: thread
  inputThread :: thread
  socketClosed :: bool
  loopsSpawned :: nat

definition Session_new :: "int \<Rightarrow> Session" where
  "Session_new sock =
     \<lparr>clientSocket = sock, sess_running = False, screenThread = NotJoinable,
      inputThread = NotJoinable, socketClosed = False, loopsSpawned = 0\<rparr>"

definition Session_Start :: "Session \<Rightarrow> (bool \<times> Session) outcome" where
  "Session_Start s =
     (if sess_running s then Returns (False, s)
      else if screenThread s = Joinable \<or> inputThread s = Joinable then Terminates
      else Returns (True, s\<lparr>sess_running := True, screenThread := Joinable,
                             inputThread := Joinable, loopsSpawned := loopsSpawned s + 2\<rparr>))"

definition Session_Stop :: "bool \<Rightarrow> Session \<Rightarrow> Session outcome" where
  "Session_Stop loops_exit s =
     (if \<not> sess_running s then Returns s
      else if \<not> loops_exit then Blocks
      else Returns (s\<lparr>sess_running := False, screenThread := NotJoinable,
                      inputThread := NotJoinable, socketClosed := True\<rparr>))"

text \<open>
  When \<open>recv\<close> reports that the peer has closed the connection, \<open>InputProcessingLoop\<close>
  clears \<open>_running\<close> itself and leaves its loop; the screen loop then leaves its own. Both
  thread objects stay joinable: nothing has joined them.
\<close>

definition InputProcessingLoop_disconnect :: "Session \<Rightarrow> Session" where
  "InputProcessingLoop_disconnect s = s\<lparr>sess_running := False\<rparr>"

text \<open>
  \<open>~Session() { Stop(); }\<close>, followed by the destructors of the members. The destructor of
  a \<open>std::thread\<close> that is still joinable calls \<open>std::terminate\<close>.
\<close>

definition Session_destructor :: "bool \<Rightarrow> Session \<Rightarrow> unit outcome" where
  "Session_destructor loops_exit s =
     (case Session_Stop loops_exit s of
        Returns s' \<Rightarrow>
          if screenThread s' = Joinable \<or> inputThread s' = Joinable then Terminates
          else Returns ()
      | Terminates \<Rightarrow> Terminates
      | Blocks \<Rightarrow> Blocks)"

text \<open>
  A session after its constructor and one call of \<open>Start\<close>, and the same session after its
  peer has disconnected.
\<close>

definition started_session :: Session where
  "started_session =
     (case Session_Start (Session_new 5) of Returns (_, s) \<Rightarrow> s | _ \<Rightarrow> Session_new 5)"

definition disconnected_session :: Session where
  "disconnected_session = InputProcessingLoop_disconnect started_session"

section \<open>Server command interpreter: \<open>RemoteDesktopServer::ExecuteCommand\<close>\<close>

text \<open>
  The server state the interpreter reads and writes: \<open>_running\<close>, \<open>_port\<close> and the session
  table \<open>std::map<std::string, std::shared_ptr<Session>>\<close>, listed in key order.
  \<open>Start\<close> depends on the operating system through \<open>NetworkManager::Start\<close> (socket, bind,
  listen): \<open>net_start port\<close> says whether that succeeds.

  \<open>Stop\<close> clears the flag, joins the accept thread (which sits in \<open>accept\<close>), calls
  \<open>Stop\<close> on every session in the table (\<open>stop_sessions\<close>: two more joins for each running
  session) and then clears the table. \<open>joins_return\<close> says whether all these joins return.
  The table holds the only \<open>shared_ptr\<close> to each session (\<open>HandleNewConnection\<close> keeps
  none), so \<open>_sessions.clear()\<close> runs the destructor of every session
  (\<open>clear_sessions\<close>). A session that was running has had its threads joined. A session
  whose peer has disconnected is not running, so its \<open>Stop\<close> returned at the guard, its
  threads are still joinable, and its destructor ends the process.
\<close>

record Server =
  srv_running :: bool
  srv_port :: int
  sessions :: "(string \<times> Session) list"

definition Server_Start :: "(int \<Rightarrow> bool) \<Rightarrow> int \<Rightarrow> Server \<Rightarrow> bool \<times> Server" where
  "Server_Start net_start port srv =
     (if srv_running srv then (False, srv)
      else if \<not> net_start port then (False, srv)
      else (True, srv\<lparr>srv_running := True\<rparr>))"

fun stop_sessions :: "bool \<Rightarrow> (string \<times> Session) list \<Rightarrow> (string \<times> Session) list outcome" where
  "stop_sessions joins_return [] = Returns []"
| "stop_sessions joins_return ((sid, s) # rest) =
     (case Session_Stop joins_return s of
        Returns s' \<Rightarrow>
          (case stop_sessions joins_return rest of
             Returns rest' \<Rightarrow> Returns ((sid, s') # rest')
           | Terminates \<Rightarrow> Terminates
           | Blocks \<Rightarrow> Blocks)
      | Terminates \<Rightarrow> Terminates
      | Blocks \<Rightarrow> Blocks)"

fun clear_sessions :: "bool \<Rightarrow> (string \<times> Session) list \<Rightarrow> unit outcome" where
  "clear_sessions joins_return [] = Returns ()"
| "clear_sessions joins_return ((sid, s) # rest) =
     (case Session_destructor joins_return s of
        Returns _ \<Rightarrow> clear_sessions joins_return rest
      | Terminates \<Rightarrow> Terminates
      | Blocks \<Rightarrow> Blocks)"

definition Server_Stop :: "bool \<Rightarrow> Server \<Rightarrow> Server outcome" where
  "Server_Stop joins_return srv =
     (if \<not> srv_running srv then Returns srv
      else if \<not> joins_return then Blocks
      else
        (case stop_sessions joins_return (sessions srv) of
           Returns stopped \<Rightarrow>
             (case clear_sessions joins_return stopped of
                Returns _ \<Rightarrow> Returns (srv\<lparr>srv_running := False, sessions := []\<rparr>)
              | Terminates \<Rightarrow> Terminates
              | Blocks \<Rightarrow> Blocks)
         | Terminates \<Rightarrow> Terminates
         | Blocks \<Rightarrow> Blocks))"

text \<open>
  A session that is not running while one of its threads is still joinable: the state
  \<open>InputProcessingLoop_disconnect\<close> leaves behind.
\<close>

definition left_joinable :: "Session \<Rightarrow> bool" where
  "left_joinable s \<longleftrightarrow>
     (if sess_running s then False else screenThread s = Joinable \<or> inputThread s = Joinable)"

definition GetSessionCount :: "Server \<Rightarrow> nat" where
  "GetSessionCount srv = length (sessions srv)"

text \<open>\<open>std::to_string\<close> on integers: decimal digits, a minus sign for negatives.\<close>

fun digits :: "nat \<Rightarrow> string" where
  "digits n = (if n < 10 then [''0123456789'' ! n]
               else digits (n div 10) @ [''0123456789'' ! (n mod 10)])"

declare digits.simps [simp del]

definition to_string :: "int \<Rightarrow> string" where
  "to_string i = (if i < 0 then CHR ''-'' # digits (nat (- i)) else digits (nat i))"

text \<open>
  \<open>std::stoi\<close>: skips leading white space, reads an optional sign and the longest run of
  decimal digits; throws \<open>std::invalid_argument\<close> when there is no digit and
  \<open>std::out_of_range\<close> when the value does not fit a 32-bit \<open>int\<close>. Both are \<open>None\<close>.
\<close>

definition isspace :: "char \<Rightarrow> bool" where
  "isspace c \<longleftrightarrow> c \<in> set [CHR '' '', CHR 0x09, CHR 0x0A, CHR 0x0B, CHR 0x0C, CHR 0x0D]"

definition isdigit :: "char \<Rightarrow> bool" where
  "isdigit c \<longleftrightarrow> c \<in> set ''0123456789''"

definition digit_value :: "char \<Rightarrow> int" where
  "digit_value c = int (length (takeWhile (\<lambda>d. d \<noteq> c) ''0123456789''))"

definition stoi :: "string \<Rightarrow> int option" where
  "stoi str =
     (let s1 = dropWhile isspace str;
          neg = (s1 \<noteq> [] \<and> hd s1 = CHR ''-'');
          s2 = (if s1 \<noteq> [] \<and> (hd s1 = CHR ''-'' \<or> hd s1 = CHR ''+'') then tl s1 else s1);
          ds = takeWhile isdigit s2;
          v = foldl (\<lambda>a c. 10 * a + digit_value c) 0 ds;
          r = (if neg then - v else v)
      in if ds = [] then None
         else if r < - (2 ^ 31) \<or> 2 ^ 31 - 1 < r then None
         else Some r)"

text \<open>
  C strings. \<open>c_str\<close> is the part of a character sequence before its first NUL: what
  \<open>std::string cmd(command)\<close> and \<open>strncpy\<close> read. The caller's response buffer is the
  memory that starts at the pointer \<open>response\<close>, a function from offsets to characters; a
  null pointer is \<open>None\<close>.

  \<open>strncpy(response, result.c_str(), responseSize - 1)\<close> writes the offsets below
  \<open>responseSize - 1\<close>: the characters of the string, then NULs. The next statement writes NUL
  at offset \<open>responseSize - 1\<close>. No other offset is written.
\<close>

definition NUL :: char where
  "NUL = CHR 0x00"

definition c_str :: "string \<Rightarrow> string" where
  "c_str s = takeWhile (\<lambda>c. c \<noteq> NUL) s"

type_synonym buffer = "nat \<Rightarrow> char"

definition copy_response :: "string \<Rightarrow> nat \<Rightarrow> buffer \<Rightarrow> buffer" where
  "copy_response result responseSize response =
     (\<lambda>i. if i < responseSize - 1
            then (if i < length (c_str result) then c_str result ! i else NUL)
          else if i = responseSize - 1 then NUL
          else response i)"

text \<open>The C string found in the first \<open>n\<close> bytes of a buffer.\<close>

definition c_string_at :: "buffer \<Rightarrow> nat \<Rightarrow> string" where
  "c_string_at buf n = takeWhile (\<lambda>c. c \<noteq> NUL) (map buf [0..<n])"

definition bool_text :: "bool \<Rightarrow> string" where
  "bool_text b = (if b then ''true'' else ''false'')"

definition list_sessions_text :: "(string \<times> Session) list \<Rightarrow> string" where
  \<open>list_sessions_text ss =
     ''{ "sessions": ['' @
     fst (foldl (\<lambda>(result, first) pair.
            ((if \<not> first then result @ '','' else result) @ ''{ "id": "'' @ fst pair @ ''" }'',
             False))
          ([], True) ss)
     @ ''] }''\<close>

definition unknown_command_text :: string where
  \<open>unknown_command_text = ''{ "success": false, "message": "Unknown command" }''\<close>

text \<open>
  The chain of comparisons in the body of \<open>ExecuteCommand\<close>, from the command text to the
  result string and the new server state. \<open>cmd.compare(0, n, lit) == 0\<close> holds when the
  first \<open>n\<close> characters of \<open>cmd\<close> (all of them when it is shorter) equal \<open>lit\<close>.
  \<open>RemoveSession\<close> is declared in RemoteDesktopServer.h and defined nowhere in the
  sources: it is a parameter.
\<close>

definition command_result ::
  "(int \<Rightarrow> bool) \<Rightarrow> bool \<Rightarrow> (string \<Rightarrow> Server \<Rightarrow> bool \<times> Server) \<Rightarrow> string \<Rightarrow> Server
     \<Rightarrow> (string \<times> Server) outcome" where
  \<open>command_result net_start joins_return RemoveSession cmd srv =
     (if cmd = ''status'' then
        Returns
          (''{ "running": '' @ bool_text (srv_running srv) @
           '', "port": '' @ to_string (srv_port srv) @
           '', "sessions": '' @ to_string (int (GetSessionCount srv)) @ '' }'', srv)
      else if cmd = ''start'' then
        (if srv_running srv then
           Returns (''{ "success": false, "message": "Server already running" }'', srv)
         else
           let (success, srv1) = Server_Start net_start (srv_port srv) srv
           in Returns
                (''{ "success": '' @ bool_text success @ '', "message": "'' @
                 (if success then ''Server started'' else ''Failed to start server'') @
                 ''" }'', srv1))
      else if cmd = ''stop'' then
        (if \<not> srv_running srv then
           Returns (''{ "success": false, "message": "Server not running" }'', srv)
         else
           (case Server_Stop joins_return srv of
              Returns srv1 \<Rightarrow> Returns (''{ "success": true, "message": "Server stopped" }'', srv1)
            | Terminates \<Rightarrow> Terminates
            | Blocks \<Rightarrow> Blocks))
      else if take 9 cmd = ''setport: '' then
        (case stoi (drop 9 cmd) of
           None \<Rightarrow> Returns (''{ "success": false, "message": "Invalid port format" }'', srv)
         | Some newPort \<Rightarrow>
             if newPort > 0 \<and> newPort < 65536 then
               Returns
                 (''{ "success": true, "message": "Port set to '' @ to_string newPort @
                  ''" }'', srv\<lparr>srv_port := newPort\<rparr>)
             else Returns (''{ "success": false, "message": "Invalid port number" }'', srv))
      else if cmd = ''list_sessions'' then Returns (list_sessions_text (sessions srv), srv)
      else if take 16 cmd = ''disconnect_session:'' then
        (let (success, srv1) = RemoveSession (drop 16 cmd) srv
         in Returns
              (''{ "success": '' @ bool_text success @ '', "message": "'' @
               (if success then ''Session disconnected'' else ''Session not found'') @
               ''" }'', srv1))
      else Returns (unknown_command_text, srv))\<close>

definition ExecuteCommand ::
  "(int \<Rightarrow> bool) \<Rightarrow> bool \<Rightarrow> (string \<Rightarrow> Server \<Rightarrow> bool \<times> Server) \<Rightarrow>
   string option \<Rightarrow> buffer option \<Rightarrow> int \<Rightarrow> Server \<Rightarrow>
   (bool \<times> buffer option \<times> Server) outcome" where
  "ExecuteCommand net_start joins_return RemoveSession command response responseSize srv =
    (case command of
       None \<Rightarrow> Returns (False, response, srv)
     | Some command_chars \<Rightarrow>
    (case response of
       None \<Rightarrow> Returns (False, response, srv)
     | Some buf \<Rightarrow>
       if responseSize \<le> 0 then Returns (False, response, srv)
       else
         (case command_result net_start joins_return RemoveSession (c_str command_chars) srv of
            Returns (result, srv') \<Rightarrow>
              Returns (True, Some (copy_response result (nat responseSize) buf), srv')
          | Terminates \<Rightarrow> Terminates
          | Blocks \<Rightarrow> Blocks)))"

text \<open>
  Modelled from the spec: \<open>RemoveSession\<close>, which the sources declare and never define.
  The spec's session table maps an id to a session and \<open>removeSession\<close> is one of its
  mutators: the entry is removed when the id is present, and the result says whether it was.
\<close>

definition RemoveSession_table :: "string \<Rightarrow> Server \<Rightarrow> bool \<times> Server" where
  "RemoveSession_table sid srv =
     (if sid \<in> fst ` set (sessions srv)
      then (True, srv\<lparr>sessions := filter (\<lambda>p. fst p \<noteq> sid) (sessions srv)\<rparr>)
      else (False, srv))"

text \<open>
  A running server on port 8080 with the sessions \<open>abc\<close> and \<open>xyz\<close>, a buffer of NULs and
  a buffer filled with \<open>#\<close>.
\<close>

definition example_server :: Server where
  "example_server =
     \<lparr>srv_running = True, srv_port = 8080,
      sessions = [(''abc'', Session_new 5), (''xyz'', Session_new 6)]\<rparr>"

text \<open>The same server when the peer of session \<open>abc\<close> has disconnected.\<close>

definition disconnected_server :: Server where
  "disconnected_server =
     \<lparr>srv_running = True, srv_port = 8080,
      sessions = [(''abc'', disconnected_session), (''xyz'', started_session)]\<rparr>"

definition zero_buffer :: buffer where
  "zero_buffer = (\<lambda>_. NUL)"

definition filled_buffer :: buffer where
  "filled_buffer = (\<lambda>_. CHR ''#'')"

section \<open>Broker: \<open>IPCBroker\<close> (IPCFramework.h, IPCFramework.cpp)\<close>

datatype IPC_MessageType =
  IPC_REGISTER | IPC_UNREGISTER | IPC_COMMAND | IPC_RESPONSE | IPC_STATUS | IPC_ALERT | IPC_DATA

record Message =
  msg_id :: string
  sourceModule :: string
  targetModule :: string
  msg_type :: IPC_MessageType
  payload :: string
  correlationId :: string

text \<open>
  A handler is a \<open>std::function\<close>; the broker only stores and calls it, so it is a value of
  an arbitrary type \<open>'h\<close>, and an empty \<open>std::function\<close> is \<open>None\<close>. \<open>_handlers\<close> is a
  \<open>std::map\<close> from module names to handler vectors, \<open>_registeredModules\<close> a vector of names.
  \<open>workersSpawned\<close> counts the processing threads created. \<open>Stop\<close> joins the processing
  thread, which leaves its loop within 100 ms unless a handler it is running does not
  return: \<open>worker_exits\<close> says whether it does.
\<close>

record 'h IPCBroker =
  brk_running :: bool
  processingThread :: thread
  workersSpawned :: nat
  messageQueue :: "Message list"
  handlers :: "string \<rightharpoonup> 'h list"
  registeredModules :: "string list"

definition IPCBroker_new :: "'h IPCBroker" where
  "IPCBroker_new =
     \<lparr>brk_running = False, processingThread = NotJoinable, workersSpawned = 0,
      messageQueue = [], handlers = Map.empty, registeredModules = []\<rparr>"

definition IPCBroker_Start :: "'h IPCBroker \<Rightarrow> (bool \<times> 'h IPCBroker) outcome" where
  "IPCBroker_Start b =
     (if brk_running b then Returns (True, b)
      else if processingThread b = Joinable then Terminates
      else Returns (True, b\<lparr>brk_running := True, processingThread := Joinable,
                             workersSpawned := workersSpawned b + 1\<rparr>))"

definition IPCBroker_Stop :: "bool \<Rightarrow> 'h IPCBroker \<Rightarrow> 'h IPCBroker outcome" where
  "IPCBroker_Stop worker_exits b =
     (if \<not> brk_running b then Returns b
      else if \<not> worker_exits then Blocks
      else Returns (b\<lparr>brk_running := False, processingThread := NotJoinable,
                      messageQueue := [], handlers := Map.empty, registeredModules := []\<rparr>))"

definition RegisterModule :: "string \<Rightarrow> 'h IPCBroker \<Rightarrow> bool \<times> 'h IPCBroker" where
  "RegisterModule moduleName b =
     (if moduleName \<in> set (registeredModules b) then (False, b)
      else (True, b\<lparr>registeredModules := registeredModules b @ [moduleName]\<rparr>))"

definition UnregisterModule :: "string \<Rightarrow> 'h IPCBroker \<Rightarrow> bool \<times> 'h IPCBroker" where
  "UnregisterModule moduleName b =
     (if moduleName \<in> set (registeredModules b)
      then (True, b\<lparr>registeredModules := remove1 moduleName (registeredModules b),
                    handlers := (handlers b)(moduleName := None)\<rparr>)
      else (False, b))"

definition IsModuleRegistered :: "string \<Rightarrow> 'h IPCBroker \<Rightarrow> bool" where
  "IsModuleRegistered moduleName b \<longleftrightarrow> moduleName \<in> set (registeredModules b)"

definition SendMessage :: "Message \<Rightarrow> 'h IPCBroker \<Rightarrow> bool \<times> 'h IPCBroker" where
  "SendMessage message b =
     (if \<not> brk_running b then (False, b)
      else if sourceModule message = [] then (False, b)
      else (True, b\<lparr>messageQueue := messageQueue b @ [message]\<rparr>))"

definition RegisterHandler :: "string \<Rightarrow> 'h option \<Rightarrow> 'h IPCBroker \<Rightarrow> bool \<times> 'h IPCBroker" where
  "RegisterHandler moduleName handler b =
     (case handler of
        None \<Rightarrow> (False, b)
      | Some h \<Rightarrow>
          (True, b\<lparr>handlers := (handlers b)(moduleName \<mapsto>
                     (case handlers b moduleName of None \<Rightarrow> [] | Some hs \<Rightarrow> hs) @ [h])\<rparr>))"

text \<open>
  One message in \<open>ProcessMessages\<close>. \<open>targetModules\<close> is the vector the loop body builds:
  for an empty target a copy of \<open>_registeredModules\<close> from which \<open>std::remove\<close> takes every
  entry equal to the source, otherwise the target alone. \<open>deliveries\<close> lists the calls
  \<open>handler(message)\<close> the nested loops make, in order, each with the module it was found
  under; a module without an entry in \<open>_handlers\<close> contributes none. A \<open>std::exception\<close>
  thrown by a handler is caught inside the loop, so the calls after it are still made.
  \<open>ProcessMessages_step\<close> is one iteration of the loop: it takes the message at the front
  of the queue and makes the calls for it; with an empty queue it does nothing.
\<close>

definition targetModules :: "'h IPCBroker \<Rightarrow> Message \<Rightarrow> string list" where
  "targetModules b message =
     (if targetModule message = [] then removeAll (sourceModule message) (registeredModules b)
      else [targetModule message])"

definition handlers_of :: "'h IPCBroker \<Rightarrow> string \<Rightarrow> (string \<times> 'h) list" where
  "handlers_of b name =
     (case handlers b name of None \<Rightarrow> [] | Some hs \<Rightarrow> map (\<lambda>h. (name, h)) hs)"

definition deliveries :: "'h IPCBroker \<Rightarrow> Message \<Rightarrow> (string \<times> 'h) list" where
  "deliveries b message = concat (map (handlers_of b) (targetModules b message))"

definition ProcessMessages_step :: "'h IPCBroker \<Rightarrow> 'h IPCBroker \<times> (string \<times> 'h) list" where
  "ProcessMessages_step b =
     (case messageQueue b of
        [] \<Rightarrow> (b, [])
      | message # rest \<Rightarrow> (b\<lparr>messageQueue := rest\<rparr>, deliveries b message))"

text \<open>
  Two brokers built with the public operations. \<open>ghost_broker\<close>: started, one handler
  (number 7) registered under the name \<open>Ghost\<close>, no module registered.
  \<open>two_module_broker\<close>: started, modules \<open>A\<close> and \<open>B\<close> registered, each with one handler.
  \<open>outsider_broadcast\<close> is a broadcast whose source \<open>C\<close> is not a registered module,
  \<open>member_broadcast\<close> one whose source is the registered module \<open>A\<close>.
\<close>

definition started_broker :: "nat IPCBroker" where
  "started_broker =
     (case IPCBroker_Start IPCBroker_new of Returns (_, b) \<Rightarrow> b | _ \<Rightarrow> IPCBroker_new)"

definition ghost_broker :: "nat IPCBroker" where
  "ghost_broker = snd (RegisterHandler ''Ghost'' (Some 7) started_broker)"

definition ghost_message :: Message where
  "ghost_message =
     \<lparr>msg_id = ''1'', sourceModule = ''A'', targetModule = ''Ghost'', msg_type = IPC_COMMAND,
      payload = ''status'', correlationId = []\<rparr>"

definition two_module_broker :: "nat IPCBroker" where
  "two_module_broker =
     snd (RegisterHandler ''B'' (Some 2)
       (snd (RegisterHandler ''A'' (Some 1)
         (snd (RegisterModule ''B'' (snd (RegisterModule ''A'' started_broker)))))))"

definition outsider_broadcast :: Message where
  "outsider_broadcast =
     \<lparr>msg_id = ''2'', sourceModule = ''C'', targetModule = [], msg_type = IPC_STATUS,
      payload = ''online'', correlationId = []\<rparr>"

definition member_broadcast :: Message where
  "member_broadcast =
     \<lparr>msg_id = ''3'', sourceModule = ''A'', targetModule = [], msg_type = IPC_STATUS,
      payload = ''online'', correlationId = []\<rparr>"

chapter \<open>Properties\<close>

section \<open>Cipher\<close>

lemma Encrypt_length: "length (Encrypt k x) = length x"
  by (simp add: Encrypt_def)

lemma Encrypt_twice: "Encrypt k (Encrypt k x) = x"
  by (rule nth_equalityI) (simp_all add: Encrypt_def xor.assoc)

text \<open>
  C3: for every 32-byte key \<open>k\<close> and every byte sequence \<open>x\<close>, decrypting the encryption of
  \<open>x\<close> under \<open>k\<close> gives \<open>x\<close> back, and the encryption of \<open>x\<close> has as many bytes as \<open>x\<close>.
\<close>

theorem cipher_involution_length:
  "length k = 32 \<Longrightarrow> Decrypt k (Encrypt k x) = x \<and> length (Encrypt k x) = length x"
  by (simp add: Decrypt_def Encrypt_twice Encrypt_length)

theorem cipher_involution_length_witness:
  "length (replicate 32 (0x5A :: byte)) = 32
   \<and> Decrypt (replicate 32 0x5A) (Encrypt (replicate 32 0x5A) [1, 2, 3]) = [1, 2, 3]
   \<and> length (Encrypt (replicate 32 0x5A) [1, 2, 3]) = length [1 :: byte, 2, 3]"
  using cipher_involution_length [of "replicate 32 (0x5A :: byte)" "[1, 2, 3]"] by simp

section \<open>Wire codec\<close>

text \<open>Reassembling a word from the bytes \<open>Serialize\<close> cuts it into.\<close>

lemma FF_mask: "(0xFF :: 'a::len word) = mask 8"
  by (simp add: mask_eq_exp_minus_1)

lemma ucast_and_FF: "(ucast (x AND 0xFF :: 'a::len word) :: byte) = ucast x"
  by (rule bit_word_eqI) (auto simp: FF_mask bit_simps dest: bit_imp_le_length)

lemma bit_byte_at:
  "bit (push_bit k (ucast (ucast (drop_bit k w) :: byte)) :: 'a::len word) n
     \<longleftrightarrow> k \<le> n \<and> n < k + 8 \<and> bit (w :: 'a word) n"
  by (auto simp: bit_simps dest: bit_imp_le_length)

lemma bit_byte_0:
  "bit (ucast (ucast w :: byte) :: 'a::len word) n \<longleftrightarrow> n < 8 \<and> bit (w :: 'a word) n"
  by (auto simp: bit_simps dest: bit_imp_le_length)

lemma upt_8: "[0..<8] = [0, 1, 2, 3, 4, 5, 6, 7]"
  by (simp add: upt_rec)

lemma Serialize_length:
  "length (Serialize m) = 17 + length (source m) + length (target m) + length (content m)"
  by (simp add: Serialize_def timestamp_bytes_def Let_def)

lemma Serialize_sourceLen:
  "header_sourceLen (Serialize m) = word_of_nat (length (source m))"
  apply (simp add: header_sourceLen_def Serialize_def Let_def ucast_and_FF)
  apply (rule bit_word_eqI)
  subgoal for n
    apply (cases "bit (word_of_nat (length (source m)) :: 16 word) n")
     apply (simp_all add: bit_or_iff bit_byte_at bit_byte_0)
    apply linarith
    done
  done

lemma Serialize_targetLen:
  "header_targetLen (Serialize m) = word_of_nat (length (target m))"
  apply (simp add: header_targetLen_def Serialize_def Let_def ucast_and_FF)
  apply (rule bit_word_eqI)
  subgoal for n
    apply (cases "bit (word_of_nat (length (target m)) :: 16 word) n")
     apply (simp_all add: bit_or_iff bit_byte_at bit_byte_0)
    apply linarith
    done
  done

lemma Serialize_contentLen:
  "header_contentLen (Serialize m) = word_of_nat (length (content m))"
  apply (simp add: header_contentLen_def Serialize_def Let_def ucast_and_FF)
  apply (rule bit_word_eqI)
  subgoal for n
    apply (cases "bit (word_of_nat (length (content m)) :: 32 word) n")
     apply (simp_all add: bit_or_iff bit_byte_at bit_byte_0)
    apply linarith
    done
  done

lemma Serialize_timestamp: "header_timestamp (Serialize m) = timestamp m"
  apply (simp add: header_timestamp_def Serialize_def Let_def timestamp_bytes_def upt_8
      ucast_and_FF)
  apply (rule bit_word_eqI)
  subgoal for n
    apply (cases "bit (timestamp m) n")
     apply (simp_all add: bit_or_iff bit_byte_at bit_byte_0)
    apply linarith
    done
  done

lemma Serialize_split:
  "\<exists>hdr. length hdr = 17 \<and> Serialize m = hdr @ source m @ target m @ content m"
  by (rule exI [of _ "take 17 (Serialize m)"])
     (simp add: Serialize_def timestamp_bytes_def Let_def)

lemma unat_ucast_16_32: "unat (ucast (a :: 16 word) :: 32 word) = unat a"
proof -
  have "unat a < 2 ^ 16" using unsigned_less [of a] by simp
  then have "unat a < 2 ^ 32" by simp
  then show ?thesis by (simp add: unsigned_ucast_eq take_bit_nat_eq_self)
qed

lemma expectedSize_mod:
  fixes a b :: "16 word" and c :: "32 word"
  shows "unat (17 + ucast a + ucast b + c :: 32 word)
           = (17 + unat a + unat b + unat c) mod 2 ^ 32"
proof -
  have "unat (17 + ucast a + ucast b + c :: 32 word)
          = (17 + unat (ucast a :: 32 word) + unat (ucast b :: 32 word) + unat c) mod 2 ^ 32"
    by (simp add: unat_word_ariths mod_simps)
  then show ?thesis by (simp add: unat_ucast_16_32)
qed

lemma expectedSize_le:
  fixes a b :: "16 word" and c :: "32 word"
  shows "unat (17 + ucast a + ucast b + c :: 32 word) \<le> 17 + unat a + unat b + unat c"
  unfolding expectedSize_mod by (rule mod_less_eq_dividend)

text \<open>The first early return.\<close>

lemma Deserialize_Truncated: "length data < 17 \<Longrightarrow> Deserialize data = Invalid Truncated"
  by (simp add: Deserialize_def)

text \<open>
  As long as the declared total stays below \<open>2 ^ 32\<close> the size check is exact: a frame
  shorter than it declares is refused, and any other frame is sliced at the declared
  offsets without leaving the buffer.
\<close>

lemma Deserialize_Incomplete:
  assumes "17 \<le> length data" and "declared_length data < 2 ^ 32"
    and "length data < declared_length data"
  shows "Deserialize data = Invalid Incomplete"
  using assms
  by (simp add: Deserialize_def Let_def expectedSize_mod declared_length_def)

lemma Deserialize_Decoded:
  assumes "17 \<le> length data" and "declared_length data < 2 ^ 32"
    and "declared_length data \<le> length data"
  shows "Deserialize data =
    Decoded \<lparr>mtype = uint (data ! 0),
      source = take (unat (header_sourceLen data)) (drop 17 data),
      target = take (unat (header_targetLen data)) (drop (17 + unat (header_sourceLen data)) data),
      content = take (unat (header_contentLen data))
        (drop (17 + unat (header_sourceLen data) + unat (header_targetLen data)) data),
      timestamp = header_timestamp data\<rparr>"
  using assms
  by (simp add: Deserialize_def Let_def expectedSize_mod declared_length_def assign_bytes_def)

text \<open>
  From \<open>2 ^ 32\<close> on the check compares with the wrapped sum: a frame that passes it although
  it is shorter than it declares is read past its end.
\<close>

lemma Deserialize_wrapped:
  assumes "17 \<le> length data"
    and "declared_length data mod 2 ^ 32 \<le> length data"
    and "length data < declared_length data"
  shows "Deserialize data = ReadPastBuffer"
  using assms
  by (simp add: Deserialize_def Let_def expectedSize_mod declared_length_def assign_bytes_def
    split: option.splits)

lemma Deserialize_overflow_frame: "Deserialize overflow_frame = ReadPastBuffer"
  by (simp add: Deserialize_def overflow_frame_def assign_bytes_def header_sourceLen_def
    header_targetLen_def header_contentLen_def)

lemma declared_length_overflow_frame: "declared_length overflow_frame = 4294967312"
  by (simp add: declared_length_def overflow_frame_def header_sourceLen_def
    header_targetLen_def header_contentLen_def)

text \<open>
  C1 (defect in the code): decoding is to fail with \<open>Truncated\<close> below 17 bytes and with
  \<open>Incomplete\<close> whenever the declared total \<open>17 + sourceLen + targetLen + contentLen\<close>
  exceeds the bytes supplied, and never to read past the buffer. \<open>overflow_frame\<close> has 17
  bytes and declares \<open>17 + 4294967295\<close>. The 32-bit sum wraps to 16, the size check passes,
  and the content copy starts at offset 17 and asks for 4294967295 bytes: the read leaves
  the buffer, and no \<open>Incomplete\<close> is reported.
\<close>

theorem Deserialize_reads_past_buffer:
  "length overflow_frame = 17
   \<and> declared_length overflow_frame = 17 + 4294967295
   \<and> Deserialize overflow_frame = ReadPastBuffer
   \<and> Deserialize overflow_frame \<noteq> Invalid Incomplete"
  by (simp add: Deserialize_overflow_frame declared_length_overflow_frame)
     (simp add: overflow_frame_def)

text \<open>
  C2: for every frame whose source and target lengths fit in 16 bits, whose content length
  fits in 32 bits and whose type is one of the enumerators, \<open>Deserialize\<close> applied to the
  bytes \<open>Serialize\<close> produces succeeds and returns the frame itself.
\<close>

theorem Deserialize_Serialize:
  assumes s: "length (source m) < 2 ^ 16" and t: "length (target m) < 2 ^ 16"
    and c: "length (content m) < 2 ^ 32" and ty: "is_MessageType (mtype m)"
  shows "Deserialize (Serialize m) = Decoded m"
proof -
  let ?d = "Serialize m"
  have us: "unat (word_of_nat (length (source m)) :: 16 word) = length (source m)"
    using s by (simp add: of_nat_inverse [OF refl])
  have ut: "unat (word_of_nat (length (target m)) :: 16 word) = length (target m)"
    using t by (simp add: of_nat_inverse [OF refl])
  have uc: "unat (word_of_nat (length (content m)) :: 32 word) = length (content m)"
    using c by (simp add: of_nat_inverse [OF refl])
  have len: "\<not> length ?d < 17" by (simp add: Serialize_length)
  have exp: "\<not> length ?d < unat (17 + ucast (word_of_nat (length (source m)) :: 16 word)
                 + ucast (word_of_nat (length (target m)) :: 16 word)
                 + (word_of_nat (length (content m)) :: 32 word) :: 32 word)"
    using expectedSize_le [of "word_of_nat (length (source m))" "word_of_nat (length (target m))"
        "word_of_nat (length (content m))"]
    by (simp add: us ut uc Serialize_length)
  obtain hdr where hdr: "length hdr = 17" "?d = hdr @ source m @ target m @ content m"
    using Serialize_split by blast
  have a1: "assign_bytes ?d 17 (length (source m)) = Some (source m)"
    using hdr by (simp add: assign_bytes_def)
  have a2: "assign_bytes ?d (17 + length (source m)) (length (target m)) = Some (target m)"
    using hdr by (simp add: assign_bytes_def)
  have a3: "assign_bytes ?d (17 + length (source m) + length (target m)) (length (content m))
              = Some (content m)"
    using hdr by (simp add: assign_bytes_def)
  have d0: "?d ! 0 = word_of_int (mtype m)" by (simp add: Serialize_def Let_def)
  have ty': "uint (word_of_int (mtype m) :: byte) = mtype m"
    using ty by (auto simp: is_MessageType_def)
  show ?thesis
    unfolding Deserialize_def Let_def Serialize_sourceLen Serialize_targetLen
      Serialize_contentLen Serialize_timestamp
    using len exp by (simp add: us ut uc a1 a2 a3 d0 ty')
qed

theorem Deserialize_Serialize_witness:
  "length (source example_message) < 2 ^ 16 \<and> length (target example_message) < 2 ^ 16
   \<and> length (content example_message) < 2 ^ 32 \<and> is_MessageType (mtype example_message)
   \<and> Deserialize (Serialize example_message) = Decoded example_message"
proof -
  have a: "length (source example_message) < 2 ^ 16" by (simp add: example_message_def)
  have b: "length (target example_message) < 2 ^ 16" by (simp add: example_message_def)
  have c: "length (content example_message) < 2 ^ 32" by (simp add: example_message_def)
  have d: "is_MessageType (mtype example_message)"
    by (simp add: example_message_def is_MessageType_def)
  from a b c d Deserialize_Serialize [OF a b c d] show ?thesis by simp
qed

section \<open>Session lifecycle\<close>

lemma Session_Start_new:
  "Session_Start (Session_new sock) =
     Returns (True, (Session_new sock)\<lparr>sess_running := True, screenThread := Joinable,
                   inputThread := Joinable, loopsSpawned := 2\<rparr>)"
  by (simp add: Session_Start_def Session_new_def)

text \<open>
  C8: \<open>Stop\<close> on a session whose \<open>Start\<close> was never called returns at once and leaves
  every field as the constructor set it, the socket included (more generally, on any session
  that is not running); \<open>Start\<close> on a running session returns false and leaves the state
  as it is, so no loop thread is added.
\<close>

theorem Session_Stop_unstarted_Start_twice:
  "Session_Stop loops_exit (Session_new sock) = Returns (Session_new sock)
   \<and> (\<not> sess_running s \<longrightarrow> Session_Stop loops_exit s = Returns s)
   \<and> (sess_running s \<longrightarrow> Session_Start s = Returns (False, s))"
  by (simp add: Session_Stop_def Session_Start_def Session_new_def)

theorem Session_Stop_unstarted_Start_twice_witness:
  "Session_Start (Session_new 5) = Returns (True, started_session)
   \<and> loopsSpawned started_session = 2
   \<and> sess_running started_session
   \<and> Session_Start started_session = Returns (False, started_session)
   \<and> \<not> sess_running (Session_new 5)
   \<and> Session_Stop False (Session_new 5) = Returns (Session_new 5)"
  using Session_Stop_unstarted_Start_twice [of False 5 started_session]
    Session_Stop_unstarted_Start_twice [of False 5 "Session_new 5"]
  by (simp add: started_session_def Session_Start_new)

section \<open>Command interpreter\<close>

lemma take_16_not_disconnect: "take 16 cmd \<noteq> ''disconnect_session:''"
proof
  assume "take 16 cmd = ''disconnect_session:''"
  then have "length (take 16 cmd) = length ''disconnect_session:''" by (rule arg_cong)
  then show False by simp
qed

lemma command_result_unknown:
  assumes "cmd \<notin> {''status'', ''start'', ''stop'', ''list_sessions''}"
    and "take 9 cmd \<noteq> ''setport: ''"
  shows "command_result net_start joins_return RemoveSession cmd srv = Returns (unknown_command_text, srv)"
  using assms by (simp add: command_result_def take_16_not_disconnect)

lemma command_result_disconnect_session:
  "command_result net_start joins_return RemoveSession (''disconnect_session:'' @ sid) srv
     = Returns (unknown_command_text, srv)"
  by (rule command_result_unknown) simp_all

lemma c_str_no_NUL: "NUL \<notin> set s \<Longrightarrow> c_str s = s"
  by (induction s) (auto simp: c_str_def)

lemma map_copy_response:
  assumes "NUL \<notin> set r" and "length r < n"
  shows "map (copy_response r n buf) [0..<n] = r @ replicate (n - length r) NUL"
proof (rule nth_equalityI)
  show "length (map (copy_response r n buf) [0..<n]) = length (r @ replicate (n - length r) NUL)"
    using assms by simp
next
  fix i
  assume "i < length (map (copy_response r n buf) [0..<n])"
  then have i: "i < n" by simp
  show "map (copy_response r n buf) [0..<n] ! i = (r @ replicate (n - length r) NUL) ! i"
    using i assms by (auto simp: copy_response_def c_str_no_NUL nth_append)
qed

lemma c_string_at_copy_response:
  assumes "NUL \<notin> set r" and "length r < n"
  shows "c_string_at (copy_response r n buf) n = r"
proof -
  have "\<And>x. x \<in> set r \<Longrightarrow> x \<noteq> NUL"
    using assms(1) by auto
  then have "takeWhile (\<lambda>c. c \<noteq> NUL) (r @ replicate (n - length r) NUL) = r"
    by (simp add: takeWhile_append2)
  then show ?thesis
    by (simp add: c_string_at_def map_copy_response [OF assms])
qed

lemma unknown_command_text_no_NUL: "NUL \<notin> set unknown_command_text"
  by (simp add: unknown_command_text_def NUL_def)

lemma length_unknown_command_text: "length unknown_command_text = 50"
  by (simp add: unknown_command_text_def)

text \<open>
  C4 (defect in the code): the command \<open>disconnect_session:<id>\<close> is to remove the named
  session and to answer \<open>Session disconnected\<close> or \<open>Session not found\<close>. The branch
  compares the first 16 characters of the command with the 19-character literal
  \<open>disconnect_session:\<close>, which never succeeds. On a server that has the session \<open>abc\<close>,
  the command \<open>disconnect_session:abc\<close> gets the \<open>Unknown command\<close> answer and the
  session table keeps \<open>abc\<close>.
\<close>

theorem disconnect_session_unknown:
  "ExecuteCommand (\<lambda>_. True) True RemoveSession_table (Some ''disconnect_session:abc'')
       (Some zero_buffer) 128 example_server
     = Returns (True, Some (copy_response unknown_command_text 128 zero_buffer), example_server)
   \<and> c_string_at (copy_response unknown_command_text 128 zero_buffer) 128 = unknown_command_text
   \<and> ''abc'' \<in> fst ` set (sessions example_server)"
proof -
  have "c_str ''disconnect_session:abc'' = ''disconnect_session:'' @ ''abc''"
    by (simp add: c_str_def NUL_def)
  then have "ExecuteCommand (\<lambda>_. True) True RemoveSession_table (Some ''disconnect_session:abc'')
       (Some zero_buffer) 128 example_server
     = Returns (True, Some (copy_response unknown_command_text 128 zero_buffer), example_server)"
    by (simp add: ExecuteCommand_def command_result_disconnect_session del: append.simps)
  moreover have "c_string_at (copy_response unknown_command_text 128 zero_buffer) 128
      = unknown_command_text"
    by (rule c_string_at_copy_response)
       (simp_all add: unknown_command_text_no_NUL length_unknown_command_text)
  moreover have "''abc'' \<in> fst ` set (sessions example_server)"
    by (simp add: example_server_def)
  ultimately show ?thesis by simp
qed

text \<open>
  C5 (as amended): for non-null pointers and a positive \<open>responseSize\<close>, every command
  that is none of \<open>status\<close>, \<open>start\<close>, \<open>stop\<close>, \<open>list_sessions\<close>, does not begin with
  \<open>setport: \<close> and does not begin with \<open>disconnect_session:\<close> makes \<open>ExecuteCommand\<close>
  return true, leave the server as it is, and write the 50-character text
  \<open>{ "success": false, "message": "Unknown command" }\<close> (a space after the opening brace,
  after each colon and comma, and before the closing brace), cut to
  \<open>responseSize - 1\<close> characters and NUL-terminated; when \<open>responseSize\<close> exceeds 50 the
  buffer holds exactly that text.
\<close>

theorem unknown_command_response:
  assumes "0 < responseSize"
    and "c_str command \<notin> {''status'', ''start'', ''stop'', ''list_sessions''}"
    and "take 9 (c_str command) \<noteq> ''setport: ''"
    and "take 19 (c_str command) \<noteq> ''disconnect_session:''"
  shows "ExecuteCommand net_start joins_return RemoveSession (Some command) (Some buf) responseSize srv
           = Returns (True, Some (copy_response unknown_command_text (nat responseSize) buf), srv)
         \<and> (50 < responseSize \<longrightarrow>
              c_string_at (copy_response unknown_command_text (nat responseSize) buf)
                (nat responseSize) = unknown_command_text)"
proof -
  have "ExecuteCommand net_start joins_return RemoveSession (Some command) (Some buf) responseSize srv
           = Returns (True, Some (copy_response unknown_command_text (nat responseSize) buf), srv)"
    using assms(1) by (simp add: ExecuteCommand_def command_result_unknown [OF assms(2,3)])
  moreover have "c_string_at (copy_response unknown_command_text (nat responseSize) buf)
                (nat responseSize) = unknown_command_text" if "50 < responseSize"
    using that
    by (intro c_string_at_copy_response)
       (simp_all add: unknown_command_text_no_NUL length_unknown_command_text)
  ultimately show ?thesis by blast
qed

theorem unknown_command_response_witness:
  "(0::int) < 64
   \<and> c_str ''bogus'' \<notin> {''status'', ''start'', ''stop'', ''list_sessions''}
   \<and> take 9 (c_str ''bogus'') \<noteq> ''setport: ''
   \<and> take 19 (c_str ''bogus'') \<noteq> ''disconnect_session:''
   \<and> ExecuteCommand (\<lambda>_. True) True RemoveSession_table (Some ''bogus'') (Some zero_buffer) 64
        example_server
      = Returns (True, Some (copy_response unknown_command_text 64 zero_buffer), example_server)
   \<and> c_string_at (copy_response unknown_command_text 64 zero_buffer) 64 = unknown_command_text"
proof -
  have c: "c_str ''bogus'' = ''bogus''" by (simp add: c_str_def NUL_def)
  have 1: "(0::int) < 64" by simp
  have 2: "c_str ''bogus'' \<notin> {''status'', ''start'', ''stop'', ''list_sessions''}"
    by (simp add: c)
  have 3: "take 9 (c_str ''bogus'') \<noteq> ''setport: ''" by (simp add: c)
  have 4: "take 19 (c_str ''bogus'') \<noteq> ''disconnect_session:''" by (simp add: c)
  from unknown_command_response [OF 1 2 3 4, of "\<lambda>_. True" True RemoveSession_table zero_buffer
      example_server] 1 2 3 4
  show ?thesis by simp
qed

text \<open>
  The claim names the response without any space. For the command \<open>bogus\<close> and a 64-byte
  buffer the text written differs from it.
\<close>

theorem unknown_command_compact_counterexample:
  \<open>c_string_at
     (case ExecuteCommand (\<lambda>_. True) True RemoveSession_table (Some ''bogus'') (Some zero_buffer) 64
             example_server of
        Returns (_, Some buf, _) \<Rightarrow> buf | _ \<Rightarrow> zero_buffer) 64
     \<noteq> ''{"success":false,"message":"Unknown command"}''\<close>
proof -
  have c: "c_str ''bogus'' = ''bogus''" by (simp add: c_str_def NUL_def)
  have "command_result (\<lambda>_. True) True RemoveSession_table ''bogus'' example_server
      = Returns (unknown_command_text, example_server)"
    by (rule command_result_unknown) simp_all
  then have "ExecuteCommand (\<lambda>_. True) True RemoveSession_table (Some ''bogus'') (Some zero_buffer) 64
        example_server
      = Returns (True, Some (copy_response unknown_command_text 64 zero_buffer), example_server)"
    by (simp add: ExecuteCommand_def c)
  moreover have "c_string_at (copy_response unknown_command_text 64 zero_buffer) 64
      = unknown_command_text"
    by (rule c_string_at_copy_response)
       (simp_all add: unknown_command_text_no_NUL length_unknown_command_text)
  ultimately show ?thesis by (simp add: unknown_command_text_def)
qed



text \<open>
  What \<open>Stop\<close> of the server comes to: it returns at the guard, or waits in a join, or ends
  the process when the table holds a session left with joinable threads, or returns with
  the flag cleared and the table empty.
\<close>

lemma stop_sessions_returns:
  "\<exists>stopped. stop_sessions True ss = Returns stopped
     \<and> list_ex (\<lambda>p. screenThread (snd p) = Joinable \<or> inputThread (snd p) = Joinable) stopped
         = list_ex (\<lambda>p. left_joinable (snd p)) ss"
proof (induction ss)
  case Nil
  then show ?case by simp
next
  case (Cons p ss)
  obtain sid s where p: "p = (sid, s)" by (cases p)
  from Cons obtain stopped where st: "stop_sessions True ss = Returns stopped"
    "list_ex (\<lambda>p. screenThread (snd p) = Joinable \<or> inputThread (snd p) = Joinable) stopped
         = list_ex (\<lambda>p. left_joinable (snd p)) ss"
    by blast
  show ?case
    by (cases "sess_running s") (simp_all add: p st Session_Stop_def left_joinable_def)
qed

lemma clear_sessions_stopped:
  assumes "\<forall>p \<in> set stopped. \<not> sess_running (snd p)"
  shows "clear_sessions j stopped =
     (if list_ex (\<lambda>p. screenThread (snd p) = Joinable \<or> inputThread (snd p) = Joinable) stopped
      then Terminates else Returns ())"
  using assms
proof (induction stopped)
  case Nil
  then show ?case by simp
next
  case (Cons p ss)
  obtain sid s where p: "p = (sid, s)" by (cases p)
  from Cons show ?case
    by (auto simp: p Session_destructor_def Session_Stop_def)
qed

lemma stop_sessions_not_running:
  "stop_sessions True ss = Returns stopped \<Longrightarrow> \<forall>p \<in> set stopped. \<not> sess_running (snd p)"
proof (induction ss arbitrary: stopped)
  case Nil
  then show ?case by simp
next
  case (Cons p ss)
  obtain sid s where p: "p = (sid, s)" by (cases p)
  from Cons.prems obtain s' rest' where
    s': "Session_Stop True s = Returns s'" and rest': "stop_sessions True ss = Returns rest'"
    and stopped: "stopped = (sid, s') # rest'"
    by (auto simp: p split: outcome.splits)
  from s' have "\<not> sess_running s'"
    by (auto simp: Session_Stop_def split: if_splits)
  with Cons.IH [OF rest'] stopped show ?case by simp
qed

lemma Server_Stop_outcome:
  "Server_Stop joins_return srv =
     (if \<not> srv_running srv then Returns srv
      else if \<not> joins_return then Blocks
      else if list_ex (\<lambda>p. left_joinable (snd p)) (sessions srv) then Terminates
      else Returns (srv\<lparr>srv_running := False, sessions := []\<rparr>))"
proof (cases "srv_running srv \<and> joins_return")
  case False
  then show ?thesis by (auto simp: Server_Stop_def)
next
  case True
  obtain stopped where st: "stop_sessions True (sessions srv) = Returns stopped"
    "list_ex (\<lambda>p. screenThread (snd p) = Joinable \<or> inputThread (snd p) = Joinable) stopped
         = list_ex (\<lambda>p. left_joinable (snd p)) (sessions srv)"
    using stop_sessions_returns by blast
  have "clear_sessions True stopped =
     (if list_ex (\<lambda>p. left_joinable (snd p)) (sessions srv) then Terminates else Returns ())"
    using clear_sessions_stopped [OF stop_sessions_not_running [OF st(1)]] st(2) by simp
  with True st(1) show ?thesis by (simp add: Server_Stop_def)
qed

lemma command_result_Terminates:
  "command_result net_start joins_return RemoveSession cmd srv = Terminates \<longleftrightarrow>
     cmd = ''stop'' \<and> srv_running srv \<and> joins_return
       \<and> list_ex (\<lambda>p. left_joinable (snd p)) (sessions srv)"
  by (auto simp: command_result_def Server_Stop_outcome split: option.splits prod.splits)





lemma started_session_eq:
  "started_session = (Session_new 5)\<lparr>sess_running := True, screenThread := Joinable,
                       inputThread := Joinable, loopsSpawned := 2\<rparr>"
  by (simp add: started_session_def Session_Start_def Session_new_def)

lemma disconnected_server_left_joinable:
  "list_ex (\<lambda>p. left_joinable (snd p)) (sessions disconnected_server)"
  by (simp add: disconnected_server_def disconnected_session_def started_session_eq
    InputProcessingLoop_disconnect_def left_joinable_def Session_new_def)

lemma stop_disconnected_server_Terminates:
  "ExecuteCommand (\<lambda>_. True) True RemoveSession_table (Some ''stop'') (Some filled_buffer) 8
     disconnected_server = Terminates"
proof -
  have c: "c_str ''stop'' = ''stop''" by (simp add: c_str_def NUL_def)
  have "command_result (\<lambda>_. True) True RemoveSession_table ''stop'' disconnected_server
      = Terminates"
    by (simp add: command_result_Terminates disconnected_server_left_joinable)
       (simp add: disconnected_server_def)
  then show ?thesis by (simp add: ExecuteCommand_def c)
qed


section \<open>Broker\<close>

lemma started_broker_eq:
  "started_broker = IPCBroker_new\<lparr>brk_running := True, processingThread := Joinable,
                                   workersSpawned := 1\<rparr>"
  by (simp add: started_broker_def IPCBroker_Start_def IPCBroker_new_def)

text \<open>The module registry never holds a name twice.\<close>

lemma distinct_IPCBroker_new: "distinct (registeredModules IPCBroker_new)"
  by (simp add: IPCBroker_new_def)

lemma distinct_RegisterModule:
  "distinct (registeredModules b) \<Longrightarrow> distinct (registeredModules (snd (RegisterModule n b)))"
  by (simp add: RegisterModule_def)

lemma distinct_UnregisterModule:
  "distinct (registeredModules b) \<Longrightarrow> distinct (registeredModules (snd (UnregisterModule n b)))"
  by (simp add: UnregisterModule_def)

lemma distinct_IPCBroker_Stop:
  "distinct (registeredModules b) \<Longrightarrow> IPCBroker_Stop w b = Returns b'
     \<Longrightarrow> distinct (registeredModules b')"
  by (auto simp: IPCBroker_Stop_def split: if_splits)

lemma distinct_IPCBroker_Start:
  "distinct (registeredModules b) \<Longrightarrow> IPCBroker_Start b = Returns (r, b')
     \<Longrightarrow> distinct (registeredModules b')"
  by (auto simp: IPCBroker_Start_def split: if_splits)

lemma registeredModules_SendMessage:
  "registeredModules (snd (SendMessage m b)) = registeredModules b"
  by (simp add: SendMessage_def)

lemma registeredModules_RegisterHandler:
  "registeredModules (snd (RegisterHandler n h b)) = registeredModules b"
  by (simp add: RegisterHandler_def split: option.splits)

lemma registeredModules_ProcessMessages_step:
  "registeredModules (fst (ProcessMessages_step b)) = registeredModules b"
  by (simp add: ProcessMessages_step_def split: list.splits)

lemma set_handlers_of:
  "set (handlers_of b t) = {(t', h). t' = t \<and> (\<exists>hs. handlers b t = Some hs \<and> h \<in> set hs)}"
proof (cases "handlers b t")
  case None
  then show ?thesis by (simp add: handlers_of_def)
next
  case (Some hs)
  then show ?thesis by (auto simp: handlers_of_def)
qed

text \<open>
  C6 (as amended): for a message with a non-empty target, the calls made are exactly the
  handlers stored in the handler registry under the target name, in the order stored, and
  no handler stored under another name. The module registry is not consulted: the calls
  are the same whatever it holds. The message is dropped without error exactly when no
  handler is stored under the target name.
\<close>

theorem unicast_dispatch:
  assumes "targetModule m \<noteq> []"
  shows "deliveries b m = handlers_of b (targetModule m)
    \<and> (\<forall>(t, h) \<in> set (deliveries b m). t = targetModule m)
    \<and> deliveries (b\<lparr>registeredModules := ms\<rparr>) m = deliveries b m
    \<and> (deliveries b m = [] \<longleftrightarrow>
         handlers b (targetModule m) = None \<or> handlers b (targetModule m) = Some [])"
  using assms
  by (auto simp: deliveries_def targetModules_def handlers_of_def split: option.splits)

theorem unicast_dispatch_witness:
  "targetModule ghost_message \<noteq> []
   \<and> deliveries ghost_broker ghost_message = handlers_of ghost_broker ''Ghost''
   \<and> handlers_of ghost_broker ''Ghost'' = [(''Ghost'', 7)]
   \<and> deliveries (ghost_broker\<lparr>registeredModules := [''Ghost'']\<rparr>) ghost_message
        = deliveries ghost_broker ghost_message"
proof -
  have t: "targetModule ghost_message \<noteq> []" by (simp add: ghost_message_def)
  have h: "handlers_of ghost_broker ''Ghost'' = [(''Ghost'', 7)]"
    by (simp add: handlers_of_def ghost_broker_def RegisterHandler_def started_broker_eq
      IPCBroker_new_def)
  from unicast_dispatch [OF t, of ghost_broker "[''Ghost'']"] t h show ?thesis
    by (simp add: ghost_message_def)
qed

text \<open>
  The claim lets delivery happen only for a target in the module registry. The module
  registry of \<open>ghost_broker\<close> does not hold the target \<open>Ghost\<close>; the broker accepts
  \<open>ghost_message\<close>, and the next iteration of the processing loop calls the handler stored
  under \<open>Ghost\<close>.
\<close>

theorem unicast_unregistered_counterexample:
  "targetModule ghost_message = ''Ghost''
   \<and> \<not> IsModuleRegistered ''Ghost'' ghost_broker
   \<and> fst (SendMessage ghost_message ghost_broker)
   \<and> ProcessMessages_step (snd (SendMessage ghost_message ghost_broker))
        = (ghost_broker, [(''Ghost'', 7)])"
  by (simp add: SendMessage_def ghost_message_def ghost_broker_def RegisterHandler_def
    started_broker_eq IPCBroker_new_def IsModuleRegistered_def deliveries_def
    targetModules_def handlers_of_def ProcessMessages_step_def)

lemma length_removeAll_distinct:
  "distinct xs \<Longrightarrow> length (removeAll x xs) = (if x \<in> set xs then length xs - 1 else length xs)"
proof (induction xs)
  case Nil
  then show ?case by simp
next
  case (Cons a xs)
  then have "x \<in> set xs \<Longrightarrow> 0 < length xs" by (cases xs) auto
  with Cons show ?case by auto
qed

text \<open>
  C7 (as amended): for a message with an empty target, the modules selected for delivery
  are the registered modules other than the source. Their number is the number of
  registered modules minus 1 when the source is registered (0 when it is the only one) and
  the number of registered modules when it is not. The handlers called are those stored
  under the selected modules; a selected module without handlers receives no call.
\<close>

theorem broadcast_dispatch:
  assumes "targetModule m = []" and "distinct (registeredModules b)"
  shows "set (targetModules b m) = set (registeredModules b) - {sourceModule m}
    \<and> length (targetModules b m) =
        (if sourceModule m \<in> set (registeredModules b) then length (registeredModules b) - 1
         else length (registeredModules b))
    \<and> set (deliveries b m) =
        {(t, h). t \<in> set (registeredModules b) \<and> t \<noteq> sourceModule m
                 \<and> (\<exists>hs. handlers b t = Some hs \<and> h \<in> set hs)}"
proof -
  have tm: "targetModules b m = removeAll (sourceModule m) (registeredModules b)"
    using assms(1) by (simp add: targetModules_def)
  have 1: "set (targetModules b m) = set (registeredModules b) - {sourceModule m}"
    by (simp add: tm)
  have 2: "length (targetModules b m) =
        (if sourceModule m \<in> set (registeredModules b) then length (registeredModules b) - 1
         else length (registeredModules b))"
    unfolding tm by (rule length_removeAll_distinct [OF assms(2)])
  have 3: "set (deliveries b m) =
        {(t, h). t \<in> set (registeredModules b) \<and> t \<noteq> sourceModule m
                 \<and> (\<exists>hs. handlers b t = Some hs \<and> h \<in> set hs)}"
    by (auto simp: deliveries_def tm set_handlers_of)
  from 1 2 3 show ?thesis by blast
qed

lemma two_module_broker_eq:
  "two_module_broker =
     IPCBroker_new\<lparr>brk_running := True, processingThread := Joinable, workersSpawned := 1,
       registeredModules := [''A'', ''B''],
       handlers := [''A'' \<mapsto> [1], ''B'' \<mapsto> [2]]\<rparr>"
  by (simp add: two_module_broker_def RegisterHandler_def RegisterModule_def started_broker_eq
    IPCBroker_new_def)

theorem broadcast_dispatch_witness:
  "targetModule member_broadcast = [] \<and> distinct (registeredModules two_module_broker)
   \<and> sourceModule member_broadcast \<in> set (registeredModules two_module_broker)
   \<and> set (targetModules two_module_broker member_broadcast) = {''B''}
   \<and> length (targetModules two_module_broker member_broadcast)
        = length (registeredModules two_module_broker) - 1
   \<and> deliveries two_module_broker member_broadcast = [(''B'', 2)]"
proof -
  have t: "targetModule member_broadcast = []" by (simp add: member_broadcast_def)
  have d: "distinct (registeredModules two_module_broker)"
    by (simp add: two_module_broker_eq IPCBroker_new_def)
  have s: "sourceModule member_broadcast \<in> set (registeredModules two_module_broker)"
    by (simp add: two_module_broker_eq IPCBroker_new_def member_broadcast_def)
  have e: "deliveries two_module_broker member_broadcast = [(''B'', 2)]"
    by (simp add: deliveries_def targetModules_def handlers_of_def two_module_broker_eq
      IPCBroker_new_def member_broadcast_def)
  have r: "set (registeredModules two_module_broker) - {sourceModule member_broadcast} = {''B''}"
    by (auto simp add: two_module_broker_eq IPCBroker_new_def member_broadcast_def)
  from broadcast_dispatch [OF t d] t d s e r show ?thesis by simp
qed

text \<open>
  The claim counts the registered modules minus 1 in every case. \<open>two_module_broker\<close>
  accepts \<open>outsider_broadcast\<close>, whose source is not registered: both registered modules
  are selected and the next iteration of the processing loop calls both handlers, where
  the claim counts one module.
\<close>

theorem broadcast_outsider_counterexample:
  "targetModule outsider_broadcast = []
   \<and> \<not> IsModuleRegistered (sourceModule outsider_broadcast) two_module_broker
   \<and> fst (SendMessage outsider_broadcast two_module_broker)
   \<and> targetModules two_module_broker outsider_broadcast = [''A'', ''B'']
   \<and> ProcessMessages_step (snd (SendMessage outsider_broadcast two_module_broker))
        = (two_module_broker, [(''A'', 1), (''B'', 2)])
   \<and> length (registeredModules two_module_broker) - 1 = 1"
  by (simp add: SendMessage_def deliveries_def targetModules_def handlers_of_def
    two_module_broker_eq IPCBroker_new_def outsider_broadcast_def ProcessMessages_step_def
    IsModuleRegistered_def)

text \<open>
  C10: \<open>Start\<close> on a running broker returns true and leaves every field as it is, the
  thread handle and the count of threads created included; \<open>Stop\<close> on a broker that is not
  running returns at once and leaves the queue, the handler registry and the module
  registry as they are.
\<close>

theorem IPCBroker_Start_Stop_guards:
  "(brk_running b \<longrightarrow> IPCBroker_Start b = Returns (True, b))
   \<and> (\<not> brk_running b \<longrightarrow> IPCBroker_Stop worker_exits b = Returns b)"
  by (simp add: IPCBroker_Start_def IPCBroker_Stop_def)

theorem IPCBroker_Start_Stop_guards_witness:
  "brk_running two_module_broker
   \<and> IPCBroker_Start two_module_broker = Returns (True, two_module_broker)
   \<and> \<not> brk_running (IPCBroker_new :: nat IPCBroker)
   \<and> IPCBroker_Stop False (IPCBroker_new :: nat IPCBroker) = Returns IPCBroker_new"
proof -
  have r: "brk_running two_module_broker" by (simp add: two_module_broker_eq)
  have n: "\<not> brk_running (IPCBroker_new :: nat IPCBroker)" by (simp add: IPCBroker_new_def)
  from IPCBroker_Start_Stop_guards [of two_module_broker False]
    IPCBroker_Start_Stop_guards [of "IPCBroker_new :: nat IPCBroker" False] r n
  show ?thesis by simp
qed

end
